theory Spec2Isabelle
  imports Main
begin

section \<open>Data model of \<open>mars/tensor/expressions/linalg/qr.py\<close>\<close>

text \<open>
  Python exceptions are values. The source raises \<open>LinAlgError\<close> (line 38, the spec's
  DimensionError) and \<open>NotImplementedError\<close> (line 74, the spec's UnsupportedMethodError);
  tuple unpacking raises \<open>ValueError\<close>, indexing an empty list \<open>IndexError\<close>, reading an
  attribute that was never set \<open>AttributeError\<close>. \<open>OtherError\<close> stands for whatever the
  numpy primitive raises.
\<close>

datatype error =
    LinAlgError string
  | NotImplementedError string
  | ValueError string
  | IndexError string
  | AttributeError string
  | OtherError string

type_synonym dtype = string
type_synonym shape = "nat list"

text \<open>Every Python object that is constructed takes the next identity from a counter.\<close>

type_synonym ids = nat

text \<open>A chunk of the tiled input tensor: one block of the partition.\<close>

record chunk =
  c_id :: nat
  c_index :: "nat list"
  c_shape :: shape

text \<open>
  The input tensor, as \<open>__call__\<close> and \<open>tile\<close> read it: \<open>shape\<close>, \<open>dtype\<close>,
  \<open>chunk_shape\<close> (the number of chunks along each axis) and \<open>chunks\<close>.
\<close>

record tensor =
  t_id :: nat
  t_shape :: shape
  t_dtype :: dtype
  t_chunk_shape :: "nat list"
  t_chunks :: "chunk list"

text \<open>The attributes of a \<open>TensorQR\<close> operand object that \<open>copy\<close> carries over.\<close>

record op_attrs =
  op_id :: nat
  op_key :: "nat option"
  op_method :: "string option"
  op_dtype :: "dtype option"

text \<open>A chunk created by \<open>new_chunks\<close>: the operand that produces it, its inputs, and the
  keyword attributes it was given.\<close>

record out_chunk =
  oc_id :: nat
  oc_op :: op_attrs
  oc_inputs :: "chunk list"
  oc_index :: "nat list"
  oc_shape :: shape
  oc_side :: "string option"
  oc_dtype :: "dtype option"

text \<open>A tensor created by \<open>new_tensors\<close>.\<close>

record out_tensor =
  ot_id :: nat
  ot_op :: op_attrs
  ot_inputs :: "tensor list"
  ot_shape :: shape
  ot_side :: "string option"
  ot_dtype :: "dtype option"
  ot_chunks :: "out_chunk list option"
  ot_nsplits :: "nat list list option"

text \<open>The \<open>TensorQR\<close> operand with its wiring: \<open>_inputs\<close>, \<open>_input\<close> and \<open>outputs\<close>.\<close>

record qr_op = op_attrs +
  op_inputs :: "tensor list"
  op_input :: "tensor option"
  op_outputs :: "out_tensor list"

text \<open>The keyword dictionaries passed as \<open>kws\<close>; an absent key is \<open>None\<close>.\<close>

record kw =
  kw_side :: "string option"
  kw_dtype :: "dtype option"
  kw_chunks :: "out_chunk list option"
  kw_nsplits :: "nat list list option"

section \<open>Python primitives\<close>

definition ndim :: "tensor \<Rightarrow> nat" where
  "ndim a = length (t_shape a)"

definition digit_char :: "nat \<Rightarrow> char" where
  "digit_char d = ''0123456789'' ! d"

text \<open>\<open>'{0}'.format(n)\<close> for a non-negative integer: its decimal digits.\<close>

function str_nat :: "nat \<Rightarrow> string" where
  "str_nat n = (if n < 10 then [digit_char n] else str_nat (n div 10) @ [digit_char (n mod 10)])"
  by pat_completeness auto
termination
  by (relation "measure id") auto

declare str_nat.simps [simp del]

text \<open>\<open>a, b = xs\<close>: unpacking into two names.\<close>

fun unpack2 :: "'a list \<Rightarrow> error + 'a \<times> 'a" where
  "unpack2 [a, b] = Inr (a, b)"
| "unpack2 [] = Inl (ValueError ''not enough values to unpack'')"
| "unpack2 [a] = Inl (ValueError ''not enough values to unpack'')"
| "unpack2 (a # b # c # xs) = Inl (ValueError ''too many values to unpack'')"

section \<open>The operand framework\<close>

text \<open>\<open>TensorQR.__init__\<close> (lines 27-28): a new operand object with \<open>_method\<close> and
  \<open>_dtype\<close> set and no wiring yet.\<close>

definition TensorQR_init :: "string option \<Rightarrow> dtype option \<Rightarrow> ids \<Rightarrow> qr_op \<times> ids" where
  "TensorQR_init method dt s =
     (\<lparr>op_id = s, op_key = None, op_method = method, op_dtype = dt,
       op_inputs = [], op_input = None, op_outputs = []\<rparr>, Suc s)"

text \<open>\<open>TensorQR._set_inputs\<close> (lines 30-32): stores the inputs and reads \<open>_inputs[0]\<close>.
  The result is the pair \<open>(_inputs, _input)\<close>.\<close>

definition set_inputs :: "'i list \<Rightarrow> error + 'i list \<times> 'i" where
  "set_inputs inputs =
     (case inputs of
        [] \<Rightarrow> Inl (IndexError ''list index out of range'')
      | i # _ \<Rightarrow> Inr (inputs, i))"

text \<open>
  Modelled from the spec: the operand methods \<open>copy\<close>, \<open>reset_key\<close>, \<open>new_chunks\<close> and
  \<open>new_tensors\<close> of the tensor framework, which \<open>qr.py\<close> calls and does not define.
  The spec (section 3) has each node reference its inputs and declare its output shapes and
  dtypes, freshly identified on every tiling pass. So \<open>copy\<close> gives a new object with
  the same attributes and no outputs, \<open>reset_key\<close> forgets the key, and \<open>new_chunks\<close> and
  \<open>new_tensors\<close> set the inputs, give the operand a key when it has none, and create
  one descriptor per shape, the j-th from the j-th keyword dictionary.
\<close>

definition copy_op :: "qr_op \<Rightarrow> ids \<Rightarrow> qr_op \<times> ids" where
  "copy_op op s = (op\<lparr>op_id := s, op_outputs := []\<rparr>, Suc s)"

definition reset_key :: "qr_op \<Rightarrow> qr_op" where
  "reset_key op = op\<lparr>op_key := None\<rparr>"

definition update_key :: "qr_op \<Rightarrow> ids \<Rightarrow> qr_op \<times> ids" where
  "update_key op s =
     (case op_key op of
        None \<Rightarrow> (op\<lparr>op_key := Some s\<rparr>, Suc s)
      | Some _ \<Rightarrow> (op, s))"

definition create_chunk :: "qr_op \<Rightarrow> chunk list \<Rightarrow> nat list \<Rightarrow> ids \<Rightarrow> nat \<times> shape \<times> kw \<Rightarrow> out_chunk" where
  "create_chunk op inputs index s = (\<lambda>(j, sh, k).
     \<lparr>oc_id = s + j, oc_op = op_attrs.truncate op, oc_inputs = inputs, oc_index = index,
      oc_shape = sh, oc_side = kw_side k, oc_dtype = kw_dtype k\<rparr>)"

definition new_chunks ::
  "qr_op \<Rightarrow> chunk list \<Rightarrow> shape list \<Rightarrow> nat list \<Rightarrow> kw list \<Rightarrow> ids \<Rightarrow> (error + out_chunk list) \<times> ids" where
  "new_chunks op inputs shapes index kws s =
     (case set_inputs inputs of
        Inl e \<Rightarrow> (Inl e, s)
      | Inr (ins, _) \<Rightarrow>
          (case update_key op s of
             (op1, s1) \<Rightarrow>
               (Inr (map (create_chunk op1 ins index s1)
                      (zip [0..<length shapes] (zip shapes kws))),
                s1 + length shapes)))"

definition create_tensor :: "qr_op \<Rightarrow> tensor list \<Rightarrow> ids \<Rightarrow> nat \<times> shape \<times> kw \<Rightarrow> out_tensor" where
  "create_tensor op inputs s = (\<lambda>(j, sh, k).
     \<lparr>ot_id = s + j, ot_op = op_attrs.truncate op, ot_inputs = inputs, ot_shape = sh,
      ot_side = kw_side k, ot_dtype = kw_dtype k, ot_chunks = kw_chunks k,
      ot_nsplits = kw_nsplits k\<rparr>)"

text \<open>\<open>new_tensors\<close> also leaves the operand wired: the updated operand is returned with
  the created tensors, which are its \<open>outputs\<close>.\<close>

definition new_tensors ::
  "qr_op \<Rightarrow> tensor list \<Rightarrow> shape list \<Rightarrow> kw list \<Rightarrow> ids \<Rightarrow> (error + qr_op \<times> out_tensor list) \<times> ids" where
  "new_tensors op inputs shapes kws s =
     (case set_inputs inputs of
        Inl e \<Rightarrow> (Inl e, s)
      | Inr (ins, i) \<Rightarrow>
          (case update_key (op\<lparr>op_inputs := ins, op_input := Some i\<rparr>) s of
             (op1, s1) \<Rightarrow>
               (let outs = map (create_tensor op1 ins s1)
                             (zip [0..<length shapes] (zip shapes kws))
                in (Inr (op1\<lparr>op_outputs := outs\<rparr>, outs), s1 + length shapes))))"

section \<open>\<open>TensorQR.__call__\<close> and \<open>qr\<close>\<close>

text \<open>
  \<open>TensorQR.__call__\<close> (lines 34-49). The parameter \<open>tiny_qr\<close> is numpy's part of line 41:
  for a dtype \<open>d\<close>, the dtypes of the two arrays that
  \<open>np.linalg.qr(np.ones((1, 1), dtype=d))\<close> returns, or the exception it raises.
  The argument \<open>a\<close> is a tensor already, on which \<open>astensor\<close> is the identity.
  The result holds the operand \<open>self\<close> as the call leaves it and the list \<open>[q, r]\<close>
  that the \<open>ExecutableTuple\<close> wraps.
\<close>

definition TensorQR_call ::
  "(dtype \<Rightarrow> error + dtype \<times> dtype) \<Rightarrow> qr_op \<Rightarrow> tensor \<Rightarrow> ids \<Rightarrow>
     (error + qr_op \<times> out_tensor list) \<times> ids" where
  "TensorQR_call tiny_qr self a s =
     (if ndim a \<noteq> 2 then
        (Inl (LinAlgError (str_nat (ndim a) @
                ''-dimensional tensor given. Tensor must be two-dimensional'')), s)
      else
        (case tiny_qr (t_dtype a) of
           Inl e \<Rightarrow> (Inl e, s)
         | Inr (tiny_q, tiny_r) \<Rightarrow>
             (case unpack2 (t_shape a) of
                Inl e \<Rightarrow> (Inl e, s)
              | Inr (x, y) \<Rightarrow>
                  (let q_shape = (if x > y then t_shape a else [x, x]);
                       r_shape = (if x < y then t_shape a else [y, y])
                   in new_tensors self [a] [q_shape, r_shape]
                        [\<lparr>kw_side = Some ''q'', kw_dtype = Some tiny_q,
                          kw_chunks = None, kw_nsplits = None\<rparr>,
                         \<lparr>kw_side = Some ''r'', kw_dtype = Some tiny_r,
                          kw_chunks = None, kw_nsplits = None\<rparr>] s))))"

text \<open>\<open>qr\<close> (lines 77-130): builds the operand and calls it.\<close>

definition qr ::
  "(dtype \<Rightarrow> error + dtype \<times> dtype) \<Rightarrow> tensor \<Rightarrow> string option \<Rightarrow> ids \<Rightarrow>
     (error + qr_op \<times> out_tensor list) \<times> ids" where
  "qr tiny_qr a method s =
     (case TensorQR_init method None s of (op, s1) \<Rightarrow> TensorQR_call tiny_qr op a s1)"

section \<open>\<open>TensorQR.tile\<close>\<close>

text \<open>
  \<open>TensorQR.tile\<close> (lines 51-74). The parameter \<open>super_tile\<close> is \<open>TSQR.tile\<close>, the
  method of the base class that line 71 calls.
\<close>

definition TensorQR_tile ::
  "(qr_op \<Rightarrow> ids \<Rightarrow> (error + out_tensor list) \<times> ids) \<Rightarrow> qr_op \<Rightarrow> ids \<Rightarrow>
     (error + out_tensor list) \<times> ids" where
  "TensorQR_tile super_tile op s =
     (case unpack2 (op_outputs op) of
        Inl e \<Rightarrow> (Inl e, s)
      | Inr (q, r) \<Rightarrow>
          (let q_dtype = ot_dtype q; r_dtype = ot_dtype r;
               q_shape = ot_shape q; r_shape = ot_shape r
           in case op_input op of
                None \<Rightarrow> (Inl (AttributeError ''_input''), s)
              | Some in_tensor \<Rightarrow>
                  if t_chunk_shape in_tensor = [1, 1] then
                    (case t_chunks in_tensor of
                       [] \<Rightarrow> (Inl (IndexError ''list index out of range''), s)
                     | in_chunk # _ \<Rightarrow>
                         (case copy_op op s of
                            (chunk_op0, s1) \<Rightarrow>
                              (case new_chunks (reset_key chunk_op0) [in_chunk]
                                      [q_shape, r_shape] (c_index in_chunk)
                                      [\<lparr>kw_side = Some ''q'', kw_dtype = None,
                                        kw_chunks = None, kw_nsplits = None\<rparr>,
                                       \<lparr>kw_side = Some ''r'', kw_dtype = None,
                                        kw_chunks = None, kw_nsplits = None\<rparr>] s1 of
                                 (Inl e, s2) \<Rightarrow> (Inl e, s2)
                               | (Inr qr_chunks, s2) \<Rightarrow>
                                   (case unpack2 qr_chunks of
                                      Inl e \<Rightarrow> (Inl e, s2)
                                    | Inr (q_chunk, r_chunk) \<Rightarrow>
                                        (case copy_op op s2 of
                                           (new_op, s3) \<Rightarrow>
                                             (case new_tensors new_op (op_inputs op)
                                                     [q_shape, r_shape]
                                                     [\<lparr>kw_side = None, kw_dtype = q_dtype,
                                                       kw_chunks = Some [q_chunk],
                                                       kw_nsplits = Some [[1], [1]]\<rparr>,
                                                      \<lparr>kw_side = None, kw_dtype = r_dtype,
                                                       kw_chunks = Some [r_chunk],
                                                       kw_nsplits = Some [[1], [1]]\<rparr>] s3 of
                                                (Inl e, s4) \<Rightarrow> (Inl e, s4)
                                              | (Inr (_, ts), s4) \<Rightarrow> (Inr ts, s4)))))))
                  else if op_method op = Some ''tsqr'' then super_tile op s
                  else (Inl (NotImplementedError ''Only tsqr method supported for now''), s)))"

section \<open>\<open>TSQR.tile\<close>, the base class\<close>

text \<open>
  Modelled from the spec: \<open>TSQR.tile\<close> of \<open>mars/tensor/expressions/linalg/core.py\<close>,
  the multi-block tiling that line 71 delegates to; the file is not part of the sources
  at hand. Section 4.3 of the spec: when the partition has multiple column-blocks (the
  short-and-fat case) the component fails with an UnsupportedMethodError, which the source
  spells \<open>NotImplementedError\<close>; otherwise it builds the merge tree. The number of
  column-blocks is the second entry of \<open>chunk_shape\<close>. The construction of the tree is the
  parameter \<open>merge_tree\<close>.
\<close>

definition column_blocks :: "tensor \<Rightarrow> nat" where
  "column_blocks t = (case t_chunk_shape t of _ # c # _ \<Rightarrow> c | _ \<Rightarrow> 1)"

definition TSQR_tile ::
  "(qr_op \<Rightarrow> ids \<Rightarrow> (error + out_tensor list) \<times> ids) \<Rightarrow> qr_op \<Rightarrow> ids \<Rightarrow>
     (error + out_tensor list) \<times> ids" where
  "TSQR_tile merge_tree op s =
     (case op_input op of
        None \<Rightarrow> (Inl (AttributeError ''_input''), s)
      | Some in_tensor \<Rightarrow>
          if column_blocks in_tensor > 1 then
            (Inl (NotImplementedError ''short-and-fat layout is not supported''), s)
          else merge_tree op s)"

section \<open>Node identity and execution\<close>

text \<open>The attributes of an operand with its identity and key erased: what two copies of
  one operation have in common.\<close>

definition strip_attrs :: "op_attrs \<Rightarrow> op_attrs" where
  "strip_attrs a = a\<lparr>op_id := 0, op_key := None\<rparr>"

text \<open>
  Modelled from the spec: the execution of a tiled result by the engine, which is not in
  \<open>qr.py\<close>. Sections 3 and 6 of the spec: a LocalFactorNode consumes one block and
  produces the pair (Q, R) that the local QR primitive \<open>localQR(block)\<close> returns on the
  data of that block. The primitive \<open>local_qr\<close> and the data \<open>data\<close> of the blocks are
  parameters, over any type of blocks and matrices. The chunk created with side \<open>'q'\<close>
  holds the first component of the pair and the one with side \<open>'r'\<close> the second. A node
  with no block or several, or a chunk with no side, has no value here.
\<close>

definition run_node :: "('b \<Rightarrow> 'm \<times> 'm) \<Rightarrow> (chunk \<Rightarrow> 'b) \<Rightarrow> out_chunk \<Rightarrow> 'm option" where
  "run_node local_qr data oc =
     (case oc_inputs oc of
        [c] \<Rightarrow>
          (if oc_side oc = Some ''q'' then Some (fst (local_qr (data c)))
           else if oc_side oc = Some ''r'' then Some (snd (local_qr (data c)))
           else None)
      | _ \<Rightarrow> None)"

text \<open>
  Modelled from the spec: the value of an output tensor that is not split (section 4.2,
  one chunk of the full shape) is the value of its one chunk, and the value of a tiled
  result is the pair of the values of its Q and R tensors. The assembly of a tensor from
  several chunks is no part of the single-block path and has no value here.
\<close>

definition run_tensor :: "('b \<Rightarrow> 'm \<times> 'm) \<Rightarrow> (chunk \<Rightarrow> 'b) \<Rightarrow> out_tensor \<Rightarrow> 'm option" where
  "run_tensor local_qr data t =
     (case ot_chunks t of
        Some [oc] \<Rightarrow> run_node local_qr data oc
      | _ \<Rightarrow> None)"

definition run_tiled ::
  "('b \<Rightarrow> 'm \<times> 'm) \<Rightarrow> (chunk \<Rightarrow> 'b) \<Rightarrow> out_tensor list \<Rightarrow> ('m \<times> 'm) option" where
  "run_tiled local_qr data ts =
     (case ts of
        [tq, tr] \<Rightarrow>
          (case (run_tensor local_qr data tq, run_tensor local_qr data tr) of
             (Some q, Some r) \<Rightarrow> Some (q, r)
           | _ \<Rightarrow> None)
      | _ \<Rightarrow> None)"

text \<open>The spec's other side of the comparison (section 8, trivial-partition equivalence):
  the local QR primitive invoked directly on the block.\<close>

definition direct_local_qr :: "('b \<Rightarrow> 'm \<times> 'm) \<Rightarrow> (chunk \<Rightarrow> 'b) \<Rightarrow> chunk \<Rightarrow> 'm \<times> 'm" where
  "direct_local_qr local_qr data c = local_qr (data c)"

section \<open>Concrete requests\<close>

text \<open>A sample of the numpy primitive: float32 stays, float16 is refused, every other
  dtype is promoted to float64.\<close>

definition float_qr :: "dtype \<Rightarrow> error + dtype \<times> dtype" where
  "float_qr d =
     (if d = ''float16'' then Inl (OtherError ''array type float16 is unsupported in linalg'')
      else if d = ''float32'' then Inr (''float32'', ''float32'')
      else Inr (''float64'', ''float64''))"

definition block :: "nat \<Rightarrow> nat list \<Rightarrow> shape \<Rightarrow> chunk" where
  "block n index sh = \<lparr>c_id = n, c_index = index, c_shape = sh\<rparr>"

text \<open>A 9 x 6 matrix in one chunk, the same matrix in three row-blocks, a 6 x 9 matrix on a
  2 x 2 grid, and a 3-dimensional tensor.\<close>

definition single_chunk_input :: tensor where
  "single_chunk_input =
     \<lparr>t_id = 1, t_shape = [9, 6], t_dtype = ''int64'', t_chunk_shape = [1, 1],
      t_chunks = [block 0 [0, 0] [9, 6]]\<rparr>"

definition row_blocks_input :: tensor where
  "row_blocks_input =
     \<lparr>t_id = 3, t_shape = [9, 6], t_dtype = ''int64'', t_chunk_shape = [3, 1],
      t_chunks = [block 0 [0, 0] [3, 6], block 1 [1, 0] [3, 6], block 2 [2, 0] [3, 6]]\<rparr>"

definition grid_input :: tensor where
  "grid_input =
     \<lparr>t_id = 4, t_shape = [6, 9], t_dtype = ''int64'', t_chunk_shape = [2, 2],
      t_chunks = [block 0 [0, 0] [3, 5], block 1 [0, 1] [3, 4],
                  block 2 [1, 0] [3, 5], block 3 [1, 1] [3, 4]]\<rparr>"

definition cube_input :: tensor where
  "cube_input =
     \<lparr>t_id = 0, t_shape = [2, 3, 4], t_dtype = ''int64'', t_chunk_shape = [1, 1, 1],
      t_chunks = [block 0 [0, 0, 0] [2, 3, 4]]\<rparr>"

text \<open>The operand that \<open>qr(a, method)\<close> leaves behind, which is what \<open>tile\<close> receives.\<close>

definition request :: "tensor \<Rightarrow> string option \<Rightarrow> qr_op" where
  "request a method =
     (case qr float_qr a method 10 of
        (Inr (op, _), _) \<Rightarrow> op
      | (Inl _, _) \<Rightarrow> fst (TensorQR_init method None 10))"

section \<open>Basic facts\<close>

lemma str_nat_digit: "n < 10 \<Longrightarrow> str_nat n = [''0123456789'' ! n]"
  by (simp add: str_nat.simps [of n] digit_char_def)

text \<open>The decimal text of a number names that number and no other.\<close>

lemma digit_char_code: "d < 10 \<Longrightarrow> of_char (digit_char d) = 48 + d"
  by (auto simp add: digit_char_def numeral_eq_Suc less_Suc_eq)

lemma digit_char_inj:
  assumes "a < 10" and "b < 10" and "digit_char a = digit_char b"
  shows "a = b"
proof -
  have "48 + a = (of_char (digit_char a) :: nat)"
    using assms(1) by (simp only: digit_char_code)
  also have "\<dots> = of_char (digit_char b)"
    by (simp only: assms(3))
  also have "\<dots> = 48 + b"
    using assms(2) by (simp only: digit_char_code)
  finally show ?thesis by simp
qed

lemma str_nat_small: "n < 10 \<Longrightarrow> str_nat n = [digit_char n]"
  by (subst str_nat.simps) simp

lemma str_nat_large: "\<not> n < 10 \<Longrightarrow> str_nat n = str_nat (n div 10) @ [digit_char (n mod 10)]"
  by (subst str_nat.simps) simp

lemma str_nat_not_Nil: "str_nat n \<noteq> []"
  by (cases "n < 10") (simp_all add: str_nat_small str_nat_large)

lemma str_nat_inj: "str_nat m = str_nat n \<Longrightarrow> m = n"
proof (induction m arbitrary: n rule: str_nat.induct)
  case (1 m)
  show ?case
  proof (cases "m < 10")
    case True
    note msmall = this
    show ?thesis
    proof (cases "n < 10")
      case True
      with msmall "1.prems" have "digit_char m = digit_char n"
        by (simp add: str_nat_small)
      with msmall True show ?thesis by (rule digit_char_inj)
    next
      case False
      with msmall "1.prems" have "[digit_char m] = str_nat (n div 10) @ [digit_char (n mod 10)]"
        by (simp add: str_nat_small str_nat_large)
      then have "str_nat (n div 10) = []" by simp
      with str_nat_not_Nil show ?thesis by blast
    qed
  next
    case False
    note mlarge = this
    show ?thesis
    proof (cases "n < 10")
      case True
      with mlarge "1.prems" have "str_nat (m div 10) @ [digit_char (m mod 10)] = [digit_char n]"
        by (simp add: str_nat_small str_nat_large)
      then have "str_nat (m div 10) = []" by simp
      with str_nat_not_Nil show ?thesis by blast
    next
      case nlarge: False
      with mlarge "1.prems" have
        "str_nat (m div 10) @ [digit_char (m mod 10)] = str_nat (n div 10) @ [digit_char (n mod 10)]"
        by (simp add: str_nat_small str_nat_large)
      then have a: "str_nat (m div 10) = str_nat (n div 10)"
        and b: "digit_char (m mod 10) = digit_char (n mod 10)" by simp_all
      from "1.IH" [OF mlarge a] have d: "m div 10 = n div 10" .
      have "m mod 10 < 10" and "n mod 10 < 10" by simp_all
      then have e: "m mod 10 = n mod 10" using b by (rule digit_char_inj)
      have "m = 10 * (m div 10) + m mod 10" by simp
      also have "\<dots> = 10 * (n div 10) + n mod 10" using d e by simp
      also have "\<dots> = n" by simp
      finally show ?thesis .
    qed
  qed
qed

lemma unpack2_Inl: "unpack2 xs = Inl e \<Longrightarrow> \<exists>m. e = ValueError m"
  by (cases xs rule: unpack2.cases) auto

lemma unpack2_Inr: "unpack2 xs = Inr (a, b) \<longleftrightarrow> xs = [a, b]"
  by (cases xs rule: unpack2.cases) auto

lemma length_two: "length xs = 2 \<Longrightarrow> \<exists>x y. xs = [x, y]"
  by (cases xs rule: unpack2.cases) auto

lemma new_tensors_two:
  "new_tensors op (i # ins) [sh1, sh2] [k1, k2] s =
     (case update_key (op\<lparr>op_inputs := i # ins, op_input := Some i\<rparr>) s of
        (op1, s1) \<Rightarrow>
          (Inr (op1\<lparr>op_outputs := [create_tensor op1 (i # ins) s1 (0, sh1, k1),
                                     create_tensor op1 (i # ins) s1 (Suc 0, sh2, k2)]\<rparr>,
                [create_tensor op1 (i # ins) s1 (0, sh1, k1),
                 create_tensor op1 (i # ins) s1 (Suc 0, sh2, k2)]), s1 + 2))"
  unfolding new_tensors_def set_inputs_def
  by (simp add: upt_rec Let_def split: prod.splits)

lemma new_chunks_two:
  "new_chunks op [c] [sh1, sh2] index [k1, k2] s =
     (case update_key op s of
        (op1, s1) \<Rightarrow>
          (Inr [create_chunk op1 [c] index s1 (0, sh1, k1),
                create_chunk op1 [c] index s1 (Suc 0, sh2, k2)], s1 + 2))"
  unfolding new_chunks_def set_inputs_def
  by (simp add: upt_rec split: prod.splits)

text \<open>What \<open>__call__\<close> leaves in the operand: two outputs, the input wired, the method
  untouched. These are the conditions on a tile request in the theorems below.\<close>

lemma call_wires_operand:
  assumes "TensorQR_call tiny_qr self a s = (Inr (op, outs), s')"
  shows "\<exists>q r. outs = [q, r] \<and> op_outputs op = [q, r] \<and> op_inputs op = [a] \<and>
               op_input op = Some a \<and> op_method op = op_method self"
  using assms
  by (auto simp: TensorQR_call_def new_tensors_two update_key_def Let_def
           split: if_splits sum.splits prod.splits option.splits)

lemma request_eval:
  "t_shape a = [x, y] \<Longrightarrow> float_qr (t_dtype a) = Inr (dq, dr) \<Longrightarrow>
   request a m =
     \<lparr>op_id = 10, op_key = Some 11, op_method = m, op_dtype = None,
      op_inputs = [a], op_input = Some a,
      op_outputs =
        [\<lparr>ot_id = 12,
          ot_op = \<lparr>op_id = 10, op_key = Some 11, op_method = m, op_dtype = None\<rparr>,
          ot_inputs = [a], ot_shape = (if x > y then [x, y] else [x, x]),
          ot_side = Some ''q'', ot_dtype = Some dq, ot_chunks = None, ot_nsplits = None\<rparr>,
         \<lparr>ot_id = 13,
          ot_op = \<lparr>op_id = 10, op_key = Some 11, op_method = m, op_dtype = None\<rparr>,
          ot_inputs = [a], ot_shape = (if x < y then [x, y] else [y, y]),
          ot_side = Some ''r'', ot_dtype = Some dr, ot_chunks = None, ot_nsplits = None\<rparr>]\<rparr>"
  by (simp add: request_def qr_def TensorQR_init_def TensorQR_call_def ndim_def
        new_tensors_two update_key_def create_tensor_def op_attrs.truncate_def Let_def)

text \<open>The single-block branch of \<open>tile\<close>, written out: the two tensors it returns and the
  identities it takes.\<close>

lemma tile_single_block:
  assumes "op_outputs op = [q, r]" and "op_input op = Some t"
    and "t_chunk_shape t = [1, 1]" and "t_chunks t = c # cs" and "op_inputs op = i # ins"
  shows "TensorQR_tile super_tile op s =
     (let chunk_attrs = \<lparr>op_id = s, op_key = Some (Suc s), op_method = op_method op,
                          op_dtype = op_dtype op\<rparr>;
          q_chunk = \<lparr>oc_id = s + 2, oc_op = chunk_attrs, oc_inputs = [c],
                      oc_index = c_index c, oc_shape = ot_shape q, oc_side = Some ''q'',
                      oc_dtype = None\<rparr>;
          r_chunk = \<lparr>oc_id = s + 3, oc_op = chunk_attrs, oc_inputs = [c],
                      oc_index = c_index c, oc_shape = ot_shape r, oc_side = Some ''r'',
                      oc_dtype = None\<rparr>;
          k = (case op_key op of None \<Rightarrow> s + 5 | Some k \<Rightarrow> k);
          s3 = (case op_key op of None \<Rightarrow> s + 6 | Some _ \<Rightarrow> s + 5);
          new_attrs = \<lparr>op_id = s + 4, op_key = Some k, op_method = op_method op,
                        op_dtype = op_dtype op\<rparr>
      in (Inr [\<lparr>ot_id = s3, ot_op = new_attrs, ot_inputs = i # ins, ot_shape = ot_shape q,
                ot_side = None, ot_dtype = ot_dtype q, ot_chunks = Some [q_chunk],
                ot_nsplits = Some [[1], [1]]\<rparr>,
               \<lparr>ot_id = Suc s3, ot_op = new_attrs, ot_inputs = i # ins,
                ot_shape = ot_shape r, ot_side = None, ot_dtype = ot_dtype r,
                ot_chunks = Some [r_chunk], ot_nsplits = Some [[1], [1]]\<rparr>], s3 + 2))"
  using assms
  unfolding TensorQR_tile_def
  by (cases "op_key op")
     (simp_all add: Let_def copy_op_def reset_key_def new_chunks_two new_tensors_two
        update_key_def create_chunk_def create_tensor_def op_attrs.truncate_def)

lemma tile_single_no_method_error:
  assumes "op_input op = Some t" and "t_chunk_shape t = [1, 1]"
  shows "fst (TensorQR_tile super_tile op s) \<noteq> Inl (NotImplementedError msg)"
  using assms
  unfolding TensorQR_tile_def
  by (cases "op_key op")
     (auto simp add: Let_def copy_op_def reset_key_def new_chunks_two new_tensors_def
        set_inputs_def update_key_def create_chunk_def create_tensor_def
        op_attrs.truncate_def
        split: sum.splits prod.splits list.splits dest: unpack2_Inl)

lemma single_chunk_request:
  "request single_chunk_input m =
     \<lparr>op_id = 10, op_key = Some 11, op_method = m, op_dtype = None,
      op_inputs = [single_chunk_input], op_input = Some single_chunk_input,
      op_outputs =
        [\<lparr>ot_id = 12,
          ot_op = \<lparr>op_id = 10, op_key = Some 11, op_method = m, op_dtype = None\<rparr>,
          ot_inputs = [single_chunk_input], ot_shape = [9, 6],
          ot_side = Some ''q'', ot_dtype = Some ''float64'', ot_chunks = None,
          ot_nsplits = None\<rparr>,
         \<lparr>ot_id = 13,
          ot_op = \<lparr>op_id = 10, op_key = Some 11, op_method = m, op_dtype = None\<rparr>,
          ot_inputs = [single_chunk_input], ot_shape = [6, 6],
          ot_side = Some ''r'', ot_dtype = Some ''float64'', ot_chunks = None,
          ot_nsplits = None\<rparr>]\<rparr>"
proof -
  have sh: "t_shape single_chunk_input = [9, 6]"
    and dt: "float_qr (t_dtype single_chunk_input) = Inr (''float64'', ''float64'')"
    by (simp_all add: single_chunk_input_def float_qr_def)
  show ?thesis
    using request_eval [OF sh dt, of m] by simp
qed

lemma single_chunk_request_wired:
  "op_outputs (request single_chunk_input m) =
     [hd (op_outputs (request single_chunk_input m)),
      hd (tl (op_outputs (request single_chunk_input m)))]"
  "op_input (request single_chunk_input m) = Some single_chunk_input"
  "op_inputs (request single_chunk_input m) = single_chunk_input # []"
  by (simp_all add: single_chunk_request)

lemma single_chunk_partition:
  "t_chunk_shape single_chunk_input = [1, 1]"
  "t_chunks single_chunk_input = [block 0 [0, 0] [9, 6]]"
  by (simp_all add: single_chunk_input_def)

section \<open>The call: shapes, dtypes and the rank check\<close>

text \<open>
  C1: for every rank-2 input of shape (x, y) the call resolves the output shapes by the
  tall/wide/square rule. If x > y then Q has shape (x, y) and R has shape (y, y); if x < y
  then Q has shape (x, x) and R has shape (x, y); if x = y then Q has shape (x, x) and R has
  shape (y, y). The call returns these two descriptors whenever the numpy primitive of line
  41 returns, and passes its exception on otherwise.
\<close>

theorem qr_call_shapes:
  assumes "t_shape a = [x, y]"
  shows "case tiny_qr (t_dtype a) of
           Inl e \<Rightarrow> TensorQR_call tiny_qr self a s = (Inl e, s)
         | Inr _ \<Rightarrow>
             (\<exists>self' q r s'. TensorQR_call tiny_qr self a s = (Inr (self', [q, r]), s') \<and>
                ot_side q = Some ''q'' \<and> ot_side r = Some ''r'' \<and>
                (x > y \<longrightarrow> ot_shape q = [x, y] \<and> ot_shape r = [y, y]) \<and>
                (x < y \<longrightarrow> ot_shape q = [x, x] \<and> ot_shape r = [x, y]) \<and>
                (x = y \<longrightarrow> ot_shape q = [x, x] \<and> ot_shape r = [y, y]))"
  using assms
  by (auto simp: TensorQR_call_def ndim_def new_tensors_two create_tensor_def Let_def
           split: sum.splits prod.splits)

theorem qr_call_shapes_witness:
  "t_shape single_chunk_input = [9, 6] \<and>
   (\<exists>self' q r s'.
      TensorQR_call float_qr (fst (TensorQR_init (Some ''tsqr'') None 0)) single_chunk_input 1 =
        (Inr (self', [q, r]), s') \<and>
      ot_shape q = [9, 6] \<and> ot_shape r = [6, 6]) \<and>
   t_shape grid_input = [6, 9] \<and>
   (\<exists>self' q r s'.
      TensorQR_call float_qr (fst (TensorQR_init (Some ''tsqr'') None 0)) grid_input 1 =
        (Inr (self', [q, r]), s') \<and>
      ot_shape q = [6, 6] \<and> ot_shape r = [6, 9])"
proof -
  have tall: "t_shape single_chunk_input = [9, 6]"
    by (simp add: single_chunk_input_def)
  have wide: "t_shape grid_input = [6, 9]"
    by (simp add: grid_input_def)
  have p1: "float_qr (t_dtype single_chunk_input) = Inr (''float64'', ''float64'')"
    by (simp add: single_chunk_input_def float_qr_def)
  have p2: "float_qr (t_dtype grid_input) = Inr (''float64'', ''float64'')"
    by (simp add: grid_input_def float_qr_def)
  show ?thesis
    using qr_call_shapes [OF tall, of float_qr "fst (TensorQR_init (Some ''tsqr'') None 0)" 1]
      qr_call_shapes [OF wide, of float_qr "fst (TensorQR_init (Some ''tsqr'') None 0)" 1]
    by (simp add: tall wide p1 p2) blast
qed

text \<open>
  C3: for every input whose rank is not 2 the call fails with a \<open>LinAlgError\<close> (the
  spec's DimensionError) that carries the actual rank: its message starts with the decimal
  text of the rank, which is the text of no other number. The failure is eager: the
  identity counter comes back unchanged, so no output tensor and no node was constructed.
\<close>

theorem qr_call_rank_error:
  assumes "length (t_shape a) \<noteq> 2"
  shows "TensorQR_call tiny_qr self a s =
           (Inl (LinAlgError (str_nat (length (t_shape a)) @
              ''-dimensional tensor given. Tensor must be two-dimensional'')), s) \<and>
         (\<forall>n. str_nat n = str_nat (length (t_shape a)) \<longrightarrow> n = length (t_shape a))"
  using assms by (auto simp add: TensorQR_call_def ndim_def dest: str_nat_inj)

theorem qr_call_rank_error_witness:
  "length (t_shape cube_input) \<noteq> 2 \<and>
   TensorQR_call float_qr (fst (TensorQR_init (Some ''tsqr'') None 0)) cube_input 1 =
     (Inl (LinAlgError ''3-dimensional tensor given. Tensor must be two-dimensional''), 1)"
proof -
  have h: "length (t_shape cube_input) \<noteq> 2"
    by (simp add: cube_input_def)
  have three: "str_nat (length (t_shape cube_input)) = ''3''"
    by (simp add: cube_input_def str_nat_digit)
  show ?thesis
    using qr_call_rank_error [OF h, of float_qr "fst (TensorQR_init (Some ''tsqr'') None 0)" 1]
    by (simp add: h three)
qed

text \<open>
  C5: for every rank-2 input the call resolves the output dtypes by the run of the local
  QR primitive on a 1 x 1 matrix of the input dtype: the dtype of the primitive's Q goes
  to the Q output and the dtype of its R goes to the R output, each on its own. When the
  primitive raises, the call raises the same exception and constructs nothing.
\<close>

theorem qr_call_dtypes:
  assumes "length (t_shape a) = 2"
  shows "case tiny_qr (t_dtype a) of
           Inl e \<Rightarrow> TensorQR_call tiny_qr self a s = (Inl e, s)
         | Inr (dq, dr) \<Rightarrow>
             (\<exists>self' q r s'. TensorQR_call tiny_qr self a s = (Inr (self', [q, r]), s') \<and>
                ot_side q = Some ''q'' \<and> ot_dtype q = Some dq \<and>
                ot_side r = Some ''r'' \<and> ot_dtype r = Some dr)"
proof -
  from assms obtain x y where "t_shape a = [x, y]"
    using length_two by blast
  then show ?thesis
    by (auto simp: TensorQR_call_def ndim_def new_tensors_two create_tensor_def Let_def
             split: sum.splits prod.splits)
qed

theorem qr_call_dtypes_witness:
  "length (t_shape single_chunk_input) = 2 \<and>
   (\<exists>self' q r s'.
      TensorQR_call (\<lambda>d. Inr (''float32'', ''float64''))
          (fst (TensorQR_init (Some ''tsqr'') None 0)) single_chunk_input 1 =
        (Inr (self', [q, r]), s') \<and>
      ot_dtype q = Some ''float32'' \<and> ot_dtype r = Some ''float64'')"
proof -
  have h: "length (t_shape single_chunk_input) = 2"
    by (simp add: single_chunk_input_def)
  show ?thesis
    using qr_call_dtypes [OF h, of "\<lambda>d. Inr (''float32'', ''float64'')"
        "fst (TensorQR_init (Some ''tsqr'') None 0)" 1]
    by (simp add: h) blast
qed

text \<open>
  C10: the shapes and dtypes of the (Q, R) descriptors that \<open>qr\<close> returns depend only on the
  shape and dtype of the input tensor, not on the method argument. Two calls on inputs
  of the same shape and dtype, with any two methods and at any two points of the
  identity counter, give the same shapes and dtypes, or the same exception.
\<close>

theorem qr_method_independent:
  assumes "t_shape a = t_shape b" and "t_dtype a = t_dtype b"
  shows "map_sum id (map ot_shape \<circ> snd) (fst (qr tiny_qr a m1 s1)) =
         map_sum id (map ot_shape \<circ> snd) (fst (qr tiny_qr b m2 s2)) \<and>
         map_sum id (map ot_dtype \<circ> snd) (fst (qr tiny_qr a m1 s1)) =
         map_sum id (map ot_dtype \<circ> snd) (fst (qr tiny_qr b m2 s2))"
proof (cases "length (t_shape b) = 2")
  case False
  with assms show ?thesis
    by (simp add: qr_def TensorQR_init_def TensorQR_call_def ndim_def)
next
  case True
  then obtain x y where "t_shape b = [x, y]"
    using length_two by blast
  with assms show ?thesis
    by (cases "tiny_qr (t_dtype b)")
       (auto simp: qr_def TensorQR_init_def TensorQR_call_def ndim_def new_tensors_two
          update_key_def create_tensor_def Let_def)
qed

theorem qr_method_independent_witness:
  "t_shape single_chunk_input = t_shape row_blocks_input \<and>
   t_dtype single_chunk_input = t_dtype row_blocks_input \<and>
   map_sum id (map ot_shape \<circ> snd) (fst (qr float_qr single_chunk_input (Some ''tsqr'') 0)) =
     Inr [[9, 6], [6, 6]] \<and>
   map_sum id (map ot_shape \<circ> snd) (fst (qr float_qr row_blocks_input (Some ''sfqr'') 7)) =
     Inr [[9, 6], [6, 6]] \<and>
   map_sum id (map ot_dtype \<circ> snd) (fst (qr float_qr single_chunk_input (Some ''tsqr'') 0)) =
   map_sum id (map ot_dtype \<circ> snd) (fst (qr float_qr row_blocks_input (Some ''sfqr'') 7))"
proof -
  have h: "t_shape single_chunk_input = t_shape row_blocks_input"
    "t_dtype single_chunk_input = t_dtype row_blocks_input"
    by (simp_all add: single_chunk_input_def row_blocks_input_def)
  have v: "map_sum id (map ot_shape \<circ> snd)
             (fst (qr float_qr single_chunk_input (Some ''tsqr'') 0)) = Inr [[9, 6], [6, 6]]"
    by (simp add: qr_def TensorQR_init_def TensorQR_call_def ndim_def new_tensors_two
          update_key_def create_tensor_def Let_def single_chunk_input_def float_qr_def)
  show ?thesis
    using qr_method_independent [OF h, of float_qr "Some ''tsqr''" 0 "Some ''sfqr''" 7]
    by (simp add: h v)
qed

section \<open>Tiling\<close>

text \<open>
  C2: for every tile request whose input partition is a single chunk (\<open>chunk_shape\<close> is
  (1, 1)), tiling produces exactly one chunk-level QR node, which consumes that chunk; its
  Q and R chunks have the full global Q and R shapes, and both output tensors carry
  nsplits ((1,), (1,)).
\<close>

theorem tile_single_chunk:
  assumes "op_outputs op = [q, r]" and "op_input op = Some t"
    and "t_chunk_shape t = [1, 1]" and "t_chunks t = [c]" and "op_inputs op = i # ins"
  shows "\<exists>tq tr cq cr s'.
           TensorQR_tile super_tile op s = (Inr [tq, tr], s') \<and>
           ot_chunks tq = Some [cq] \<and> ot_chunks tr = Some [cr] \<and>
           oc_op cq = oc_op cr \<and> op_id (oc_op cq) = s \<and>
           oc_inputs cq = [c] \<and> oc_inputs cr = [c] \<and>
           oc_side cq = Some ''q'' \<and> oc_side cr = Some ''r'' \<and>
           oc_shape cq = ot_shape q \<and> oc_shape cr = ot_shape r \<and>
           ot_shape tq = ot_shape q \<and> ot_shape tr = ot_shape r \<and>
           ot_nsplits tq = Some [[1], [1]] \<and> ot_nsplits tr = Some [[1], [1]]"
  using tile_single_block [OF assms, of super_tile s]
  by (simp add: Let_def)

theorem tile_single_chunk_witness:
  "\<exists>tq tr cq cr s'.
     TensorQR_tile (\<lambda>op s. (Inr [], s)) (request single_chunk_input (Some ''tsqr'')) 20 =
       (Inr [tq, tr], s') \<and>
     ot_chunks tq = Some [cq] \<and> ot_chunks tr = Some [cr] \<and>
     oc_op cq = oc_op cr \<and> op_id (oc_op cq) = 20 \<and>
     oc_inputs cq = [block 0 [0, 0] [9, 6]] \<and> oc_inputs cr = [block 0 [0, 0] [9, 6]] \<and>
     oc_side cq = Some ''q'' \<and> oc_side cr = Some ''r'' \<and>
     oc_shape cq = [9, 6] \<and> oc_shape cr = [6, 6] \<and>
     ot_shape tq = [9, 6] \<and> ot_shape tr = [6, 6] \<and>
     ot_nsplits tq = Some [[1], [1]] \<and> ot_nsplits tr = Some [[1], [1]]"
proof -
  note w = single_chunk_request_wired [of "Some ''tsqr''"]
  note p = single_chunk_partition
  show ?thesis
    using tile_single_chunk [OF w(1) w(2) p(1) p(2) w(3), of "\<lambda>op s. (Inr [], s)" 20]
    by (simp add: single_chunk_request)
qed

text \<open>
  C4: for every tile request on a multi-chunk partition whose method is not \<open>'tsqr'\<close>,
  tiling raises \<open>NotImplementedError\<close> (the spec's UnsupportedMethodError), at tiling time
  and with nothing constructed.
\<close>

theorem tile_rejects_other_methods:
  assumes "op_outputs op = [q, r]" and "op_input op = Some t"
    and "t_chunk_shape t \<noteq> [1, 1]" and "op_method op \<noteq> Some ''tsqr''"
  shows "TensorQR_tile super_tile op s =
           (Inl (NotImplementedError ''Only tsqr method supported for now''), s)"
  using assms by (simp add: TensorQR_tile_def)

theorem tile_rejects_other_methods_witness:
  "t_chunk_shape row_blocks_input \<noteq> [1, 1] \<and>
   op_method (request row_blocks_input (Some ''sfqr'')) \<noteq> Some ''tsqr'' \<and>
   TensorQR_tile (\<lambda>op s. (Inr [], s)) (request row_blocks_input (Some ''sfqr'')) 20 =
     (Inl (NotImplementedError ''Only tsqr method supported for now''), 20) \<and>
   TensorQR_tile (\<lambda>op s. (Inr [], s)) (request row_blocks_input None) 20 =
     (Inl (NotImplementedError ''Only tsqr method supported for now''), 20)"
proof -
  have sh: "t_shape row_blocks_input = [9, 6]"
    and dt: "float_qr (t_dtype row_blocks_input) = Inr (''float64'', ''float64'')"
    by (simp_all add: row_blocks_input_def float_qr_def)
  note ev = request_eval [OF sh dt]
  have multi: "t_chunk_shape row_blocks_input \<noteq> [1, 1]"
    by (simp add: row_blocks_input_def)
  have h: "op_outputs (request row_blocks_input m) =
             [hd (op_outputs (request row_blocks_input m)),
              hd (tl (op_outputs (request row_blocks_input m)))]"
    "op_input (request row_blocks_input m) = Some row_blocks_input" for m
    by (simp_all add: ev)
  have m1: "op_method (request row_blocks_input (Some ''sfqr'')) \<noteq> Some ''tsqr''"
    and m2: "op_method (request row_blocks_input None) \<noteq> Some ''tsqr''"
    by (simp_all add: ev)
  show ?thesis
    using tile_rejects_other_methods [OF h multi m1, of "\<lambda>op s. (Inr [], s)" 20]
      tile_rejects_other_methods [OF h multi m2, of "\<lambda>op s. (Inr [], s)" 20]
      multi m1
    by simp
qed

text \<open>
  C6: for every tile request with method \<open>'tsqr'\<close> on a partition with more than one
  column-block (a short-and-fat layout), tiling raises \<open>NotImplementedError\<close> (the spec's
  UnsupportedMethodError). The request reaches \<open>TSQR.tile\<close> through line 71, and
  \<open>TSQR.tile\<close> as the spec describes it refuses it.
\<close>

theorem tile_rejects_short_and_fat:
  assumes "op_outputs op = [q, r]" and "op_input op = Some t"
    and "t_chunk_shape t = [rb, cb]" and "1 < cb" and "op_method op = Some ''tsqr''"
  shows "\<exists>msg. TensorQR_tile (TSQR_tile merge_tree) op s = (Inl (NotImplementedError msg), s)"
  using assms by (auto simp add: TensorQR_tile_def TSQR_tile_def column_blocks_def)

theorem tile_rejects_short_and_fat_witness:
  "t_chunk_shape grid_input = [2, 2] \<and>
   op_method (request grid_input (Some ''tsqr'')) = Some ''tsqr'' \<and>
   (\<exists>msg. TensorQR_tile (TSQR_tile (\<lambda>op s. (Inr [], s))) (request grid_input (Some ''tsqr'')) 20 =
      (Inl (NotImplementedError msg), 20))"
proof -
  have sh: "t_shape grid_input = [6, 9]"
    and dt: "float_qr (t_dtype grid_input) = Inr (''float64'', ''float64'')"
    by (simp_all add: grid_input_def float_qr_def)
  note ev = request_eval [OF sh dt, of "Some ''tsqr''"]
  have h: "op_outputs (request grid_input (Some ''tsqr'')) =
             [hd (op_outputs (request grid_input (Some ''tsqr''))),
              hd (tl (op_outputs (request grid_input (Some ''tsqr''))))]"
    "op_input (request grid_input (Some ''tsqr'')) = Some grid_input"
    "t_chunk_shape grid_input = [2, 2]"
    "(1::nat) < 2"
    "op_method (request grid_input (Some ''tsqr'')) = Some ''tsqr''"
    by (simp_all add: ev) (simp add: grid_input_def)
  show ?thesis
    using tile_rejects_short_and_fat [OF h, of "\<lambda>op s. (Inr [], s)" 20] h(3) h(5)
    by simp
qed

text \<open>
  C9: for every tile request whose input partition is a single chunk, the single-block
  branch is taken before the method is examined. Whatever the method is, tiling never
  raises \<open>NotImplementedError\<close>; and on a request as \<open>__call__\<close> leaves it (two outputs,
  the inputs wired, a chunk in the input) tiling returns, for every method \<open>m\<close>, the result
  of the single-block branch: the Q and R tensors with one chunk each, both chunks made by
  one copy of the operation that consumes the input chunk. The method only shows in the
  attributes of the copied operands, and \<open>TSQR.tile\<close> is never called.
\<close>

theorem tile_single_chunk_any_method:
  assumes "op_input op = Some t" and "t_chunk_shape t = [1, 1]"
  shows "(\<forall>m msg. fst (TensorQR_tile super_tile (op\<lparr>op_method := m\<rparr>) s)
             \<noteq> Inl (NotImplementedError msg)) \<and>
         (op_outputs op = [q, r] \<and> t_chunks t = c # cs \<and> op_inputs op = i # ins \<longrightarrow>
            (\<forall>m. TensorQR_tile super_tile (op\<lparr>op_method := m\<rparr>) s =
               (let chunk_attrs = \<lparr>op_id = s, op_key = Some (Suc s), op_method = m,
                                    op_dtype = op_dtype op\<rparr>;
                    q_chunk = \<lparr>oc_id = s + 2, oc_op = chunk_attrs, oc_inputs = [c],
                                oc_index = c_index c, oc_shape = ot_shape q,
                                oc_side = Some ''q'', oc_dtype = None\<rparr>;
                    r_chunk = \<lparr>oc_id = s + 3, oc_op = chunk_attrs, oc_inputs = [c],
                                oc_index = c_index c, oc_shape = ot_shape r,
                                oc_side = Some ''r'', oc_dtype = None\<rparr>;
                    k = (case op_key op of None \<Rightarrow> s + 5 | Some k \<Rightarrow> k);
                    s3 = (case op_key op of None \<Rightarrow> s + 6 | Some _ \<Rightarrow> s + 5);
                    new_attrs = \<lparr>op_id = s + 4, op_key = Some k, op_method = m,
                                  op_dtype = op_dtype op\<rparr>
                in (Inr [\<lparr>ot_id = s3, ot_op = new_attrs, ot_inputs = i # ins,
                          ot_shape = ot_shape q, ot_side = None, ot_dtype = ot_dtype q,
                          ot_chunks = Some [q_chunk], ot_nsplits = Some [[1], [1]]\<rparr>,
                         \<lparr>ot_id = Suc s3, ot_op = new_attrs, ot_inputs = i # ins,
                          ot_shape = ot_shape r, ot_side = None, ot_dtype = ot_dtype r,
                          ot_chunks = Some [r_chunk], ot_nsplits = Some [[1], [1]]\<rparr>],
                    s3 + 2))))"
proof (intro conjI allI impI)
  fix m msg
  show "fst (TensorQR_tile super_tile (op\<lparr>op_method := m\<rparr>) s) \<noteq> Inl (NotImplementedError msg)"
    using assms by (intro tile_single_no_method_error [where t = t]) simp_all
next
  fix m
  assume "op_outputs op = [q, r] \<and> t_chunks t = c # cs \<and> op_inputs op = i # ins"
  then show "TensorQR_tile super_tile (op\<lparr>op_method := m\<rparr>) s =
               (let chunk_attrs = \<lparr>op_id = s, op_key = Some (Suc s), op_method = m,
                                    op_dtype = op_dtype op\<rparr>;
                    q_chunk = \<lparr>oc_id = s + 2, oc_op = chunk_attrs, oc_inputs = [c],
                                oc_index = c_index c, oc_shape = ot_shape q,
                                oc_side = Some ''q'', oc_dtype = None\<rparr>;
                    r_chunk = \<lparr>oc_id = s + 3, oc_op = chunk_attrs, oc_inputs = [c],
                                oc_index = c_index c, oc_shape = ot_shape r,
                                oc_side = Some ''r'', oc_dtype = None\<rparr>;
                    k = (case op_key op of None \<Rightarrow> s + 5 | Some k \<Rightarrow> k);
                    s3 = (case op_key op of None \<Rightarrow> s + 6 | Some _ \<Rightarrow> s + 5);
                    new_attrs = \<lparr>op_id = s + 4, op_key = Some k, op_method = m,
                                  op_dtype = op_dtype op\<rparr>
                in (Inr [\<lparr>ot_id = s3, ot_op = new_attrs, ot_inputs = i # ins,
                          ot_shape = ot_shape q, ot_side = None, ot_dtype = ot_dtype q,
                          ot_chunks = Some [q_chunk], ot_nsplits = Some [[1], [1]]\<rparr>,
                         \<lparr>ot_id = Suc s3, ot_op = new_attrs, ot_inputs = i # ins,
                          ot_shape = ot_shape r, ot_side = None, ot_dtype = ot_dtype r,
                          ot_chunks = Some [r_chunk], ot_nsplits = Some [[1], [1]]\<rparr>],
                    s3 + 2))"
    using assms
      tile_single_block [of "op\<lparr>op_method := m\<rparr>" q r t c cs i ins super_tile s]
    by simp
qed

theorem tile_single_chunk_any_method_witness:
  "\<forall>m. TensorQR_tile (\<lambda>op s. (Inl (OtherError ''unreachable''), s))
          (request single_chunk_input (Some ''sfqr'')\<lparr>op_method := m\<rparr>) 20 =
        (Inr [\<lparr>ot_id = 25,
                ot_op = \<lparr>op_id = 24, op_key = Some 11, op_method = m, op_dtype = None\<rparr>,
                ot_inputs = [single_chunk_input], ot_shape = [9, 6], ot_side = None,
                ot_dtype = Some ''float64'',
                ot_chunks = Some [\<lparr>oc_id = 22,
                   oc_op = \<lparr>op_id = 20, op_key = Some 21, op_method = m, op_dtype = None\<rparr>,
                   oc_inputs = [block 0 [0, 0] [9, 6]], oc_index = [0, 0], oc_shape = [9, 6],
                   oc_side = Some ''q'', oc_dtype = None\<rparr>],
                ot_nsplits = Some [[1], [1]]\<rparr>,
              \<lparr>ot_id = 26,
                ot_op = \<lparr>op_id = 24, op_key = Some 11, op_method = m, op_dtype = None\<rparr>,
                ot_inputs = [single_chunk_input], ot_shape = [6, 6], ot_side = None,
                ot_dtype = Some ''float64'',
                ot_chunks = Some [\<lparr>oc_id = 23,
                   oc_op = \<lparr>op_id = 20, op_key = Some 21, op_method = m, op_dtype = None\<rparr>,
                   oc_inputs = [block 0 [0, 0] [9, 6]], oc_index = [0, 0], oc_shape = [6, 6],
                   oc_side = Some ''r'', oc_dtype = None\<rparr>],
                ot_nsplits = Some [[1], [1]]\<rparr>], 27)"
proof -
  note w = single_chunk_request_wired [of "Some ''sfqr''"]
  note p = single_chunk_partition
  show ?thesis
    using tile_single_chunk_any_method [OF w(2) p(1),
        of "\<lambda>op s. (Inl (OtherError ''unreachable''), s)" 20
        "hd (op_outputs (request single_chunk_input (Some ''sfqr'')))"
        "hd (tl (op_outputs (request single_chunk_input (Some ''sfqr''))))"
        "block 0 [0, 0] [9, 6]" "[]" single_chunk_input "[]"]
      w p
    by (simp add: Let_def single_chunk_request block_def)
qed

text \<open>
  C7: for every partition with exactly one block, the tiled result follows the same
  numeric path as the local QR primitive invoked directly on that block. Tiling yields one
  chunk-level node, a copy of the QR operation itself (same method and dtype, another
  identity and key) applied to the input chunk; executed, the tiled result is the very pair
  (Q, R) that the primitive returns on the data of the block, for every primitive and
  every data.
\<close>

theorem tile_single_same_numeric_path:
  assumes "op_outputs op = [q, r]" and "op_input op = Some t"
    and "t_chunk_shape t = [1, 1]" and "t_chunks t = [c]" and "op_inputs op = i # ins"
  shows "\<exists>ts tq tr cq cr s'.
           TensorQR_tile super_tile op s = (Inr ts, s') \<and> ts = [tq, tr] \<and>
           ot_chunks tq = Some [cq] \<and> ot_chunks tr = Some [cr] \<and>
           oc_op cq = oc_op cr \<and>
           strip_attrs (oc_op cq) = strip_attrs (op_attrs.truncate op) \<and>
           oc_inputs cq = [c] \<and> oc_inputs cr = [c] \<and>
           run_tiled local_qr data ts = Some (direct_local_qr local_qr data c)"
  using tile_single_block [OF assms, of super_tile s]
  by (simp add: Let_def strip_attrs_def op_attrs.truncate_def run_tiled_def run_tensor_def
        run_node_def direct_local_qr_def)

theorem tile_single_same_numeric_path_witness:
  "\<exists>ts s'.
     TensorQR_tile (\<lambda>op s. (Inr [], s)) (request single_chunk_input (Some ''tsqr'')) 20 =
       (Inr ts, s') \<and>
     run_tiled (\<lambda>b. (''Q of '' @ b, ''R of '' @ b)) (\<lambda>c. ''A'') ts = Some (''Q of A'', ''R of A'') \<and>
     direct_local_qr (\<lambda>b. (''Q of '' @ b, ''R of '' @ b)) (\<lambda>c. ''A'') (block 0 [0, 0] [9, 6]) =
       (''Q of A'', ''R of A'')"
proof -
  note w = single_chunk_request_wired [of "Some ''tsqr''"]
  note p = single_chunk_partition
  show ?thesis
    using tile_single_same_numeric_path [OF w(1) w(2) p(1) p(2) w(3),
        of "\<lambda>op s. (Inr [], s)" 20 "\<lambda>b. (''Q of '' @ b, ''R of '' @ b)" "\<lambda>c. ''A''"]
    by (auto simp add: direct_local_qr_def)
qed

end
